theory Spec2Isabelle
  imports Complex_Main "HOL-Library.AList"
begin

section \<open>JavaScript values\<close>

text \<open>
  The values that reach the program come out of \<^verbatim>\<open>JSON.parse\<close> (the import file) or
  out of the JSON body parser of the server, plus \<^verbatim>\<open>undefined\<close>, which a read of a
  missing property yields. A number is an IEEE double: a finite double is the rational
  it denotes (\<^verbatim>\<open>-0\<close> is identified with \<^verbatim>\<open>0\<close>: both are falsy and both print as
  \<^verbatim>\<open>0\<close>), and the three special values are constructors of their own. An object is
  the list of its own properties in insertion order.
\<close>

datatype jsnum = Finite rat | PosInfinity | NegInfinity | NaN

datatype jsval =
    Undefined
  | Null
  | Bool bool
  | Num jsnum
  | Str string
  | Arr "jsval list"
  | Obj "(string \<times> jsval) list"

datatype js_error = TypeError string | SyntaxError string | SystemError string

fun message_of :: "js_error \<Rightarrow> string" where
  "message_of (TypeError m) = m"
| "message_of (SyntaxError m) = m"
| "message_of (SystemError m) = m"

text \<open>\<^verbatim>\<open>ToBoolean\<close>: what \<^verbatim>\<open>if (v)\<close>, \<^verbatim>\<open>!v\<close> and \<^verbatim>\<open>v || d\<close> test.\<close>

fun truthy :: "jsval \<Rightarrow> bool" where
  "truthy Undefined = False"
| "truthy Null = False"
| "truthy (Bool b) = b"
| "truthy (Num n) = (case n of Finite q \<Rightarrow> q \<noteq> 0 | NaN \<Rightarrow> False | _ \<Rightarrow> True)"
| "truthy (Str s) = (s \<noteq> [])"
| "truthy (Arr xs) = True"
| "truthy (Obj kvs) = True"

text \<open>\<^verbatim>\<open>!v\<close>\<close>

fun falsy :: "jsval \<Rightarrow> bool" where
  "falsy v = (\<not> truthy v)"

text \<open>\<^verbatim>\<open>a || b\<close>\<close>

definition js_or :: "jsval \<Rightarrow> jsval \<Rightarrow> jsval" where
  "js_or a b = (if truthy a then a else b)"

text \<open>
  \<^verbatim>\<open>v.key\<close> on a value that is neither \<^verbatim>\<open>null\<close> nor \<^verbatim>\<open>undefined\<close>, for the
  property names this program reads (none of them is defined by a prototype, so a
  value without the own property gives \<^verbatim>\<open>undefined\<close>).
\<close>

definition has_own :: "(string \<times> jsval) list \<Rightarrow> string \<Rightarrow> bool" where
  "has_own kvs key = (map_of kvs key \<noteq> None)"

definition get_prop :: "jsval \<Rightarrow> string \<Rightarrow> jsval" where
  "get_prop v key =
     (case v of
        Obj kvs \<Rightarrow> (case map_of kvs key of Some x \<Rightarrow> x | None \<Rightarrow> Undefined)
      | _ \<Rightarrow> Undefined)"

definition nullish :: "jsval \<Rightarrow> bool" where
  "nullish v = (v = Undefined \<or> v = Null)"

text \<open>
  \<^verbatim>\<open>ToString\<close> of a value, as \<^verbatim>\<open>Array.prototype.join\<close> applies it to the elements
  of an array. The text of a number is the engine's \<^verbatim>\<open>Number.prototype.toString\<close>,
  taken as the parameter \<open>numberToString\<close>. An object parsed from JSON has no
  callable property of its own, so an own \<^verbatim>\<open>toString\<close> key hides
  \<^verbatim>\<open>Object.prototype.toString\<close> and the conversion throws.
\<close>

fun to_string :: "(jsnum \<Rightarrow> string) \<Rightarrow> jsval \<Rightarrow> js_error + string"
  and join :: "(jsnum \<Rightarrow> string) \<Rightarrow> jsval list \<Rightarrow> js_error + string" where
  "to_string numberToString Undefined = Inr ''undefined''"
| "to_string numberToString Null = Inr ''null''"
| "to_string numberToString (Bool b) = Inr (if b then ''true'' else ''false'')"
| "to_string numberToString (Num n) = Inr (numberToString n)"
| "to_string numberToString (Str s) = Inr s"
| "to_string numberToString (Arr xs) = join numberToString xs"
| "to_string numberToString (Obj kvs) =
     (if has_own kvs ''toString''
      then Inl (TypeError ''Cannot convert object to primitive value'')
      else Inr ''[object Object]'')"
| "join numberToString [] = Inr ''''"
| "join numberToString (x # xs) =
     (case (if nullish x then Inr '''' else to_string numberToString x) of
        Inl e \<Rightarrow> Inl e
      | Inr s \<Rightarrow>
          (if xs = [] then Inr s
           else (case join numberToString xs of
                   Inl e \<Rightarrow> Inl e
                 | Inr t \<Rightarrow> Inr (s @ '','' @ t))))"

text \<open>
  \<^verbatim>\<open>v.toString()\<close> on a value that is neither \<^verbatim>\<open>null\<close> nor \<^verbatim>\<open>undefined\<close>: the
  method is looked up and called, so an own \<^verbatim>\<open>toString\<close> key of an object, never
  callable, is a \<^verbatim>\<open>TypeError\<close>.
\<close>

definition call_toString :: "(jsnum \<Rightarrow> string) \<Rightarrow> jsval \<Rightarrow> js_error + string" where
  "call_toString numberToString v =
     (case v of
        Obj kvs \<Rightarrow>
          (if has_own kvs ''toString''
           then Inl (TypeError ''record.id.toString is not a function'')
           else Inr ''[object Object]'')
      | _ \<Rightarrow> to_string numberToString v)"

text \<open>\<^verbatim>\<open>v?.toString()\<close>\<close>

definition optional_toString :: "(jsnum \<Rightarrow> string) \<Rightarrow> jsval \<Rightarrow> js_error + jsval" where
  "optional_toString numberToString v =
     (if nullish v then Inr Undefined
      else (case call_toString numberToString v of
              Inl e \<Rightarrow> Inl e
            | Inr s \<Rightarrow> Inr (Str s)))"

section \<open>The normalizer: \<^verbatim>\<open>transformData\<close>\<close>

definition undefined_to_null :: "jsval \<Rightarrow> jsval" where
  "undefined_to_null v = (if v = Undefined then Null else v)"

text \<open>
  The object literal \<^verbatim>\<open>transformedData\<close>, in the order of its keys;
  \<open>external_id\<close> is the value of \<^verbatim>\<open>record.id?.toString()\<close>.
\<close>

definition transformedData_literal :: "jsval \<Rightarrow> jsval \<Rightarrow> (string \<times> jsval) list" where
  "transformedData_literal record external_id =
     [(''external_id'', external_id),
      (''upload_id'', get_prop record ''upload_id''),
      (''name'', get_prop record ''name''),
      (''detail'', get_prop record ''description''),
      (''distance'', get_prop record ''distance''),
      (''moving_time'', get_prop record ''moving_time''),
      (''elapsed_time'', get_prop record ''elapsed_time''),
      (''high_elevation'', get_prop record ''elev_high''),
      (''low_elevation'', get_prop record ''elev_low''),
      (''total_elevation_gain'', get_prop record ''total_elevation_gain''),
      (''start_date'', get_prop record ''start_date''),
      (''start_date_local'', get_prop record ''start_date_local''),
      (''time_zone'', get_prop record ''timezone''),
      (''achievement_count'', js_or (get_prop record ''achievement_count'') (Num (Finite 0))),
      (''kudos_count'', js_or (get_prop record ''kudos_count'') (Num (Finite 0))),
      (''comment_count'', js_or (get_prop record ''comment_count'') (Num (Finite 0))),
      (''athlete_count'', js_or (get_prop record ''athlete_count'') (Num (Finite 1))),
      (''photo_count'', js_or (get_prop record ''photo_count'') (Num (Finite 0))),
      (''total_photo_count'', js_or (get_prop record ''total_photo_count'') (Num (Finite 0))),
      (''trainer'', js_or (get_prop record ''trainer'') (Bool False)),
      (''commute'', js_or (get_prop record ''commute'') (Bool False)),
      (''manual'', js_or (get_prop record ''manual'') (Bool False)),
      (''private'', js_or (get_prop record ''private'') (Bool False)),
      (''flagged'', js_or (get_prop record ''flagged'') (Bool False)),
      (''average_speed'', get_prop record ''average_speed''),
      (''max_speed'', get_prop record ''max_speed''),
      (''calories'', get_prop record ''calories''),
      (''has_kudoed'', js_or (get_prop record ''has_kudoed'') (Bool False)),
      (''kilo_joules'', get_prop record ''kilojoules''),
      (''average_power'', get_prop record ''average_watts''),
      (''max_power'', get_prop record ''max_watts''),
      (''device_watts'', js_or (get_prop record ''device_watts'') (Bool False)),
      (''has_heart_rate'', js_or (get_prop record ''has_heartrate'') (Bool False)),
      (''average_heart_rate'', get_prop record ''average_heartrate''),
      (''max_heart_rate'', get_prop record ''max_heartrate'')]"

text \<open>
  \<^verbatim>\<open>transformData\<close>: the literal, then the loop over its keys that turns
  \<^verbatim>\<open>undefined\<close> into \<^verbatim>\<open>null\<close>. A read of \<^verbatim>\<open>record.id\<close> on \<^verbatim>\<open>null\<close> or
  \<^verbatim>\<open>undefined\<close> throws.
\<close>

definition transformData :: "(jsnum \<Rightarrow> string) \<Rightarrow> jsval \<Rightarrow> js_error + jsval" where
  "transformData numberToString record =
     (if record = Null
      then Inl (TypeError ''Cannot read properties of null (reading id)'')
      else if record = Undefined
      then Inl (TypeError ''Cannot read properties of undefined (reading id)'')
      else
        (case optional_toString numberToString (get_prop record ''id'') of
           Inl e \<Rightarrow> Inl e
         | Inr external_id \<Rightarrow>
             Inr (Obj (map (\<lambda>(key, v). (key, undefined_to_null v))
                    (transformedData_literal record external_id)))))"

abbreviation normal_form :: "jsval \<Rightarrow> jsval \<Rightarrow> jsval" where
  "normal_form record external_id \<equiv>
     Obj (map (\<lambda>(key, v). (key, undefined_to_null v)) (transformedData_literal record external_id))"

text \<open>
  The claims about the normalizer, in the words of the specification: the column set,
  the renames, the fields copied under their own name, the counters and the flags.
  Each pair is (column of the output, key read from the input).
\<close>

definition activity_fields :: "string list" where
  "activity_fields =
     [''external_id'', ''upload_id'', ''name'', ''detail'', ''distance'', ''moving_time'',
      ''elapsed_time'', ''high_elevation'', ''low_elevation'', ''total_elevation_gain'',
      ''start_date'', ''start_date_local'', ''time_zone'', ''achievement_count'',
      ''kudos_count'', ''comment_count'', ''athlete_count'', ''photo_count'',
      ''total_photo_count'', ''trainer'', ''commute'', ''manual'', ''private'', ''flagged'',
      ''average_speed'', ''max_speed'', ''calories'', ''has_kudoed'', ''kilo_joules'',
      ''average_power'', ''max_power'', ''device_watts'', ''has_heart_rate'',
      ''average_heart_rate'', ''max_heart_rate'']"

definition renamed_fields :: "(string \<times> string) list" where
  "renamed_fields =
     [(''detail'', ''description''), (''high_elevation'', ''elev_high''),
      (''time_zone'', ''timezone''), (''kilo_joules'', ''kilojoules''),
      (''average_power'', ''average_watts''), (''low_elevation'', ''elev_low''),
      (''max_power'', ''max_watts''), (''average_heart_rate'', ''average_heartrate''),
      (''max_heart_rate'', ''max_heartrate'')]"

definition copied_fields :: "string list" where
  "copied_fields =
     [''upload_id'', ''name'', ''distance'', ''moving_time'', ''elapsed_time'',
      ''total_elevation_gain'', ''start_date'', ''start_date_local'', ''average_speed'',
      ''max_speed'', ''calories'']"

definition boolean_fields :: "(string \<times> string) list" where
  "boolean_fields =
     [(''trainer'', ''trainer''), (''commute'', ''commute''), (''manual'', ''manual''),
      (''private'', ''private''), (''flagged'', ''flagged''), (''has_kudoed'', ''has_kudoed''),
      (''device_watts'', ''device_watts''), (''has_heart_rate'', ''has_heartrate'')]"

definition counter_fields :: "string list" where
  "counter_fields =
     [''achievement_count'', ''kudos_count'', ''comment_count'', ''photo_count'',
      ''total_photo_count'']"

text \<open>
  The values whose conversion to a string throws: an object with an own
  \<^verbatim>\<open>toString\<close> key, or an array that holds one at any depth.
\<close>

fun unprintable :: "jsval \<Rightarrow> bool"
  and some_unprintable :: "jsval list \<Rightarrow> bool" where
  "unprintable (Obj kvs) = has_own kvs ''toString''"
| "unprintable (Arr xs) = some_unprintable xs"
| "unprintable Undefined = False"
| "unprintable Null = False"
| "unprintable (Bool b) = False"
| "unprintable (Num n) = False"
| "unprintable (Str s) = False"
| "some_unprintable [] = False"
| "some_unprintable (x # xs) = (unprintable x \<or> some_unprintable xs)"

text \<open>
  What a second normalization does to a normalized record: the columns filled from a
  key of another name are not found again.
\<close>

definition renamed_columns :: "string list" where
  "renamed_columns = ''external_id'' # map fst renamed_fields"

definition reset_renamed :: "jsval \<Rightarrow> jsval" where
  "reset_renamed t =
     (case t of
        Obj out \<Rightarrow>
          Obj (map (\<lambda>(key, v).
                 (key, if key \<in> set renamed_columns then Null
                       else if key = ''has_heart_rate'' then Bool False
                       else v)) out)
      | _ \<Rightarrow> t)"

text \<open>
  \<^verbatim>\<open>Number.prototype.toString\<close> on the integers a double holds exactly (up to
  \<open>2\<^sup>5\<^sup>3\<close>) and on the special values: the instance the examples use. The
  theorems hold for every \<open>numberToString\<close>.
\<close>

function nat_to_string :: "nat \<Rightarrow> string" where
  "nat_to_string n =
     (if n < 10 then [''0123456789'' ! n]
      else nat_to_string (n div 10) @ [''0123456789'' ! (n mod 10)])"
  by pat_completeness auto
termination
  by (relation "measure id") auto

declare nat_to_string.simps [simp del]

definition decimal_number :: "jsnum \<Rightarrow> string" where
  "decimal_number n =
     (case n of
        NaN \<Rightarrow> ''NaN''
      | PosInfinity \<Rightarrow> ''Infinity''
      | NegInfinity \<Rightarrow> ''-Infinity''
      | Finite q \<Rightarrow> (if q < 0 then ''-'' else []) @ nat_to_string (nat \<lfloor>\<bar>q\<bar>\<rfloor>))"

text \<open>The record the examples normalize, and its normal form.\<close>

definition sample_record :: jsval where
  "sample_record =
     Obj [(''id'', Num (Finite 7)), (''name'', Str ''Run''), (''description'', Str ''easy''),
          (''has_heartrate'', Bool True)]"

definition sample_normalized :: jsval where
  "sample_normalized =
     (case transformData decimal_number sample_record of Inr t \<Rightarrow> t | Inl e \<Rightarrow> Null)"

section \<open>The store client\<close>

text \<open>
  The database is reached through a client library that is not part of the
  repository. A query is awaited once; the awaited value is \<^verbatim>\<open>{data, error}\<close>, where
  \<^verbatim>\<open>error\<close> is \<^verbatim>\<open>null\<close> or an object with a \<^verbatim>\<open>code\<close> and a \<^verbatim>\<open>message\<close>, or the
  await throws. The handlers below are functions of the store's reply to the one call
  they make, and return the calls they made beside the response.
\<close>

datatype db_error = DbError (code: string) (message: string)

datatype store_reply = Reply jsval "db_error option" | Rejected js_error

datatype modifier = AllRows | Single | MaybeSingle

datatype db_call =
    SelectEq string string string jsval modifier
  | InsertRows string "jsval list"
  | UpdateEq string jsval string jsval
  | Upsert string jsval

type_synonym store = "db_call \<Rightarrow> store_reply"

datatype response = Response (status: nat) (json: jsval)

text \<open>What a \<^verbatim>\<open>catch (error)\<close> of a handler receives, and its \<^verbatim>\<open>error.message\<close>.\<close>

datatype thrown = ThrownDb db_error | ThrownJs js_error

fun thrown_message :: "thrown \<Rightarrow> string" where
  "thrown_message (ThrownDb e) = message e"
| "thrown_message (ThrownJs x) = message_of x"

text \<open>\<^verbatim>\<open>{ error: text }\<close>\<close>

definition error_body :: "string \<Rightarrow> jsval" where
  "error_body text = Obj [(''error'', Str text)]"

text \<open>
  The \<^verbatim>\<open>try { ... } catch (error) { res.status(500).json({ error: error.message }) }\<close>
  around every handler body: \<open>Inl\<close> is a throw inside the \<^verbatim>\<open>try\<close>.
\<close>

definition catch500 :: "thrown + response \<Rightarrow> response" where
  "catch500 r =
     (case r of
        Inl e \<Rightarrow> Response 500 (error_body (thrown_message e))
      | Inr res \<Rightarrow> res)"

text \<open>\<^verbatim>\<open>data.length === 0\<close> and \<^verbatim>\<open>data[0]\<close>\<close>

definition length_is_zero :: "jsval \<Rightarrow> bool" where
  "length_is_zero v =
     (case v of
        Arr xs \<Rightarrow> xs = []
      | Str s \<Rightarrow> s = []
      | Obj kvs \<Rightarrow> get_prop v ''length'' = Num (Finite 0)
      | _ \<Rightarrow> False)"

definition first_element :: "jsval \<Rightarrow> js_error + jsval" where
  "first_element v =
     (case v of
        Null \<Rightarrow> Inl (TypeError ''Cannot read properties of null (reading 0)'')
      | Undefined \<Rightarrow> Inl (TypeError ''Cannot read properties of undefined (reading 0)'')
      | Arr xs \<Rightarrow> Inr (case xs of [] \<Rightarrow> Undefined | x # _ \<Rightarrow> x)
      | Str s \<Rightarrow> Inr (case s of [] \<Rightarrow> Undefined | c # _ \<Rightarrow> Str [c])
      | Obj kvs \<Rightarrow> Inr (get_prop v ''0'')
      | _ \<Rightarrow> Inr Undefined)"

text \<open>
  The own enumerable properties an object spread \<^verbatim>\<open>{...v}\<close> copies, and
  \<^verbatim>\<open>delete v.key\<close>. A request body is an object or an array (the JSON body parser
  accepts nothing else and leaves \<^verbatim>\<open>{}\<close> when there is no body).
\<close>

definition own_props :: "jsval \<Rightarrow> (string \<times> jsval) list" where
  "own_props v =
     (case v of
        Obj kvs \<Rightarrow> kvs
      | Arr xs \<Rightarrow> zip (map nat_to_string [0..<length xs]) xs
      | Str s \<Rightarrow> zip (map nat_to_string [0..<length s]) (map (\<lambda>c. Str [c]) s)
      | _ \<Rightarrow> [])"

definition delete_prop :: "jsval \<Rightarrow> string \<Rightarrow> jsval" where
  "delete_prop v key = (case v of Obj kvs \<Rightarrow> Obj (AList.delete key kvs) | _ \<Rightarrow> v)"

text \<open>\<^verbatim>\<open>{ ...v, key: x }\<close>: the key keeps its place when \<open>v\<close> has it, else it comes last.\<close>

definition spread_with :: "jsval \<Rightarrow> string \<Rightarrow> jsval \<Rightarrow> jsval" where
  "spread_with v key x = Obj (AList.update key x (own_props v))"

text \<open>
  \<^verbatim>\<open>String.prototype.trim\<close>, on strings of code units below 256: the white space and
  line terminators there are TAB, LF, VT, FF, CR, SPACE and NBSP.
\<close>

definition is_space :: "char \<Rightarrow> bool" where
  "is_space c = (c \<in> set [CHR 0x09, CHR 0x0A, CHR 0x0B, CHR 0x0C, CHR 0x0D, CHR 0x20, CHR 0xA0])"

definition trim :: "string \<Rightarrow> string" where
  "trim s = rev (dropWhile is_space (rev (dropWhile is_space s)))"

definition call_trim :: "jsval \<Rightarrow> js_error + string" where
  "call_trim v =
     (case v of
        Str s \<Rightarrow> Inr (trim s)
      | _ \<Rightarrow> Inl (TypeError ''user_id.trim is not a function''))"

text \<open>
  \<^verbatim>\<open>req.params\<close> as the router builds it for a path with one parameter: the name is
  the one written in the route pattern, the value the matched path segment.
\<close>

definition route_params :: "string \<Rightarrow> string \<Rightarrow> jsval" where
  "route_params name segment = Obj [(name, Str segment)]"

section \<open>The route handlers\<close>

text \<open>\<^verbatim>\<open>app.get('/activities/:id', ...)\<close>\<close>

definition get_activity_by_id :: "store \<Rightarrow> jsval \<Rightarrow> response \<times> db_call list" where
  "get_activity_by_id store params =
     (let id = get_prop params ''id'';
          call = SelectEq ''activities'' ''*'' ''id'' id Single
      in (catch500
            (case store call of
               Rejected x \<Rightarrow> Inl (ThrownJs x)
             | Reply data error \<Rightarrow>
                 (case error of
                    Some e \<Rightarrow> Inl (ThrownDb e)
                  | None \<Rightarrow>
                      if falsy data then Inr (Response 404 (error_body ''Activity not found''))
                      else Inr (Response 200 data))),
          [call]))"

definition activities_id_route :: "store \<Rightarrow> string \<Rightarrow> response \<times> db_call list" where
  "activities_id_route store segment = get_activity_by_id store (route_params ''id'' segment)"

text \<open>
  \<^verbatim>\<open>app.post('/tokens', ...)\<close>. \<open>now\<close> is \<^verbatim>\<open>new Date().toISOString()\<close>, and
  \<open>date_of_seconds x\<close> is \<^verbatim>\<open>new Date(x * 1000)\<close>: the product converts \<open>x\<close> to a
  number, which throws for the objects that have no primitive value.
\<close>

definition post_tokens ::
  "store \<Rightarrow> string \<Rightarrow> (jsval \<Rightarrow> js_error + jsval) \<Rightarrow> jsval \<Rightarrow> response \<times> db_call list" where
  "post_tokens store now date_of_seconds body =
     (let user_id = get_prop body ''user_id'';
          refresh_token = get_prop body ''refresh_token'';
          access_token = get_prop body ''access_token'';
          expires_at = get_prop body ''expires_at''
      in if falsy user_id \<or> falsy refresh_token \<or> falsy access_token \<or> falsy expires_at
         then (Response 400
                 (error_body ''user_id, refresh_token, access_token, and expires_at are required''),
               [])
         else
           (case date_of_seconds expires_at of
              Inl x \<Rightarrow> (catch500 (Inl (ThrownJs x)), [])
            | Inr expiry \<Rightarrow>
                (let call = Upsert ''tokens''
                       (Obj [(''user_id'', user_id), (''refresh_token'', refresh_token),
                             (''access_token'', access_token), (''expires_at'', expiry),
                             (''updated_at'', Str now)])
                 in (catch500
                       (case store call of
                          Rejected x \<Rightarrow> Inl (ThrownJs x)
                        | Reply data error \<Rightarrow>
                            (case error of
                               Some e \<Rightarrow>
                                 if code e = ''23505''
                                 then Inr (Response 409 (error_body ''Token conflict occurred''))
                                 else Inl (ThrownDb e)
                             | None \<Rightarrow>
                                 if falsy data \<or> length_is_zero data
                                 then Inr (Response 500 (error_body ''Failed to upsert token''))
                                 else (case first_element data of
                                         Inl x \<Rightarrow> Inl (ThrownJs x)
                                       | Inr row \<Rightarrow> Inr (Response 200 row)))),
                     [call]))))"

text \<open>\<^verbatim>\<open>app.get('/tokens/:user_id', ...)\<close>\<close>

definition get_access_token :: "store \<Rightarrow> jsval \<Rightarrow> response \<times> db_call list" where
  "get_access_token store params =
     (let user_id = get_prop params ''user_id''
      in if falsy user_id
         then (Response 400 (error_body ''user_id is required''), [])
         else
           (case call_trim user_id of
              Inl x \<Rightarrow> (catch500 (Inl (ThrownJs x)), [])
            | Inr trimmed \<Rightarrow>
                if trimmed = []
                then (Response 400 (error_body ''user_id is required''), [])
                else
                  (let call = SelectEq ''tokens'' ''access_token, expires_at'' ''user_id'' user_id
                                MaybeSingle
                   in (catch500
                         (case store call of
                            Rejected x \<Rightarrow> Inl (ThrownJs x)
                          | Reply data error \<Rightarrow>
                              (case error of
                                 Some e \<Rightarrow> Inr (Response 500 (error_body ''Database error occurred''))
                               | None \<Rightarrow>
                                   if falsy data
                                   then Inr (Response 404 (error_body ''Access token not found''))
                                   else if falsy (get_prop data ''access_token'')
                                   then Inr (Response 404
                                               (error_body ''Access token not found for this user''))
                                   else Inr (Response 200 data))),
                       [call]))))"

definition tokens_user_id_route :: "store \<Rightarrow> string \<Rightarrow> response \<times> db_call list" where
  "tokens_user_id_route store segment = get_access_token store (route_params ''user_id'' segment)"

text \<open>\<^verbatim>\<open>app.post('/athletes/:id', ...)\<close>\<close>

definition post_athlete :: "store \<Rightarrow> string \<Rightarrow> jsval \<Rightarrow> jsval \<Rightarrow> response \<times> db_call list" where
  "post_athlete store now params body =
     (let id = get_prop params ''id'';
          athleteData = body
      in if falsy id \<or> falsy athleteData
         then (Response 400 (error_body ''Athlete ID and update data are required''), [])
         else
           (let athleteData = delete_prop athleteData ''id'';
                call = UpdateEq ''athletes'' (spread_with athleteData ''updated_at'' (Str now))
                         ''user_id'' id
            in (catch500
                  (case store call of
                     Rejected x \<Rightarrow> Inl (ThrownJs x)
                   | Reply data error \<Rightarrow>
                       (case error of
                          Some e \<Rightarrow> Inl (ThrownDb e)
                        | None \<Rightarrow> Inr (Response 200 data))),
                [call])))"

text \<open>\<^verbatim>\<open>app.post('/athletes/:id/stats', ...)\<close>\<close>

definition post_athlete_stats ::
  "store \<Rightarrow> string \<Rightarrow> jsval \<Rightarrow> jsval \<Rightarrow> response \<times> db_call list" where
  "post_athlete_stats store now params body =
     (let id = get_prop params ''id'';
          statsData = body
      in if falsy id \<or> falsy statsData
         then (Response 400 (error_body ''Athlete ID and stats data are required''), [])
         else
           (let call = UpdateEq ''athlete_stats'' (spread_with statsData ''updated_at'' (Str now))
                         ''user_id'' id
            in (catch500
                  (case store call of
                     Rejected x \<Rightarrow> Inl (ThrownJs x)
                   | Reply data error \<Rightarrow>
                       (case error of
                          Some e \<Rightarrow> Inl (ThrownDb e)
                        | None \<Rightarrow> Inr (Response 200 data))),
                [call])))"

text \<open>\<^verbatim>\<open>app.post('/maps', ...)\<close>\<close>

definition post_maps :: "store \<Rightarrow> string \<Rightarrow> jsval \<Rightarrow> response \<times> db_call list" where
  "post_maps store now body =
     (let mapData = body
      in if falsy mapData
         then (Response 400 (error_body ''Map data is required''), [])
         else
           (let call = InsertRows ''maps'' [spread_with mapData ''created_at'' (Str now)]
            in (catch500
                  (case store call of
                     Rejected x \<Rightarrow> Inl (ThrownJs x)
                   | Reply data error \<Rightarrow>
                       (case error of
                          Some e \<Rightarrow> Inl (ThrownDb e)
                        | None \<Rightarrow>
                            (case first_element data of
                               Inl x \<Rightarrow> Inl (ThrownJs x)
                             | Inr row \<Rightarrow> Inr (Response 201 row)))),
                [call])))"

text \<open>
  \<^verbatim>\<open>app.get('/sessions/:sessionId', ...)\<close>: the handler reads \<^verbatim>\<open>session_id\<close> from
  \<^verbatim>\<open>req.params\<close>, and the route binds \<^verbatim>\<open>sessionId\<close>.
\<close>

definition get_session :: "store \<Rightarrow> jsval \<Rightarrow> response \<times> db_call list" where
  "get_session store params =
     (let session_id = get_prop params ''session_id''
      in if falsy session_id
         then (Response 400 (error_body ''session_id is required''), [])
         else
           (let call = SelectEq ''sessions'' ''user_id, created_at'' ''session_id'' session_id Single
            in (catch500
                  (case store call of
                     Rejected x \<Rightarrow> Inl (ThrownJs x)
                   | Reply data error \<Rightarrow>
                       (case error of
                          Some e \<Rightarrow>
                            if code e = ''PGRST116''
                            then Inr (Response 404 (error_body ''Session not found''))
                            else Inl (ThrownDb e)
                        | None \<Rightarrow> Inr (Response 200 data))),
                [call])))"

definition sessions_route :: "store \<Rightarrow> string \<Rightarrow> response \<times> db_call list" where
  "sessions_route store segment = get_session store (route_params ''sessionId'' segment)"

section \<open>The batch importer: \<^verbatim>\<open>importActivities\<close>\<close>











section \<open>Example requests and store replies\<close>

text \<open>
  The request of the specification's example for \<^verbatim>\<open>POST /tokens\<close>, the row the store
  returns for it, and an instance of \<open>date_of_seconds\<close> that is right on the example's
  timestamp and on the values that have no primitive value.
\<close>

definition token_body :: jsval where
  "token_body =
     Obj [(''user_id'', Str ''u1''), (''refresh_token'', Str ''r''), (''access_token'', Str ''a''),
          (''expires_at'', Num (Finite 1700000000))]"

definition token_row :: jsval where
  "token_row =
     Obj [(''user_id'', Str ''u1''), (''refresh_token'', Str ''r''), (''access_token'', Str ''a''),
          (''expires_at'', Str ''2023-11-14T22:13:20+00:00''),
          (''updated_at'', Str ''2024-01-01T00:00:00+00:00'')]"

definition example_date_of_seconds :: "jsval \<Rightarrow> js_error + jsval" where
  "example_date_of_seconds x =
     (if unprintable x then Inl (TypeError ''Cannot convert object to primitive value'')
      else if x = Num (Finite 1700000000) then Inr (Str ''2023-11-14T22:13:20.000Z'')
      else Inr Null)"

text \<open>
  The reply of a \<^verbatim>\<open>.single()\<close> query that matches no row, as the handlers of the
  sessions, refresh-token and auth routes read it: no data, and an error whose code
  is \<^verbatim>\<open>PGRST116\<close>.
\<close>

definition no_rows_reply :: "string \<Rightarrow> store_reply" where
  "no_rows_reply text = Reply Null (Some (DbError ''PGRST116'' text))"

section \<open>Properties of the value model\<close>

lemma to_string_fails:
  "(\<exists>e. to_string ns v = Inl e) = unprintable v"
  "(\<exists>e. join ns xs = Inl e) = some_unprintable xs"
  by (induction ns v and ns xs rule: to_string_join.induct)
     (auto simp: nullish_def split: sum.splits)

lemma optional_toString_fails: "(\<exists>e. optional_toString ns v = Inl e) = unprintable v"
  using to_string_fails(1)[of ns v]
  by (cases v) (auto simp: optional_toString_def call_toString_def nullish_def split: sum.splits)

lemma optional_toString_value:
  assumes "optional_toString ns v = Inr ext"
  shows "ext \<noteq> Null"
    and "nullish v \<Longrightarrow> ext = Undefined"
    and "v = Num n \<Longrightarrow> ext = Str (ns n)"
    and "v = Str s \<Longrightarrow> ext = Str s"
  using assms
  by (auto simp: optional_toString_def call_toString_def nullish_def split: sum.splits if_splits)

lemma undefined_to_null_js_or [simp]:
  "d \<noteq> Undefined \<Longrightarrow> undefined_to_null (js_or a d) = js_or a d"
  by (auto simp: undefined_to_null_def js_or_def)

lemma undefined_to_null_idem [simp]:
  "undefined_to_null (undefined_to_null v) = undefined_to_null v"
  by (simp add: undefined_to_null_def)

lemma undefined_to_null_neq [simp]: "undefined_to_null v \<noteq> Undefined"
  by (simp add: undefined_to_null_def)

lemma js_or_neq_Undefined [simp]: "d \<noteq> Undefined \<Longrightarrow> js_or a d \<noteq> Undefined"
  by (auto simp: js_or_def)

lemma js_or_js_or [simp]: "js_or (js_or a d) d = js_or a d"
  by (simp add: js_or_def)

lemma get_prop_Nil [simp]: "get_prop (Obj []) key = Undefined"
  by (simp add: get_prop_def)

lemma get_prop_Cons [simp]:
  "get_prop (Obj ((k, v) # kvs)) key = (if key = k then v else get_prop (Obj kvs) key)"
  by (simp add: get_prop_def)

lemma js_or_Undefined [simp]: "js_or Undefined d = d"
  by (simp add: js_or_def)

lemma undefined_to_null_simps [simp]:
  "undefined_to_null Undefined = Null" "undefined_to_null Null = Null"
  by (simp_all add: undefined_to_null_def)

lemma optional_toString_Undefined [simp]: "optional_toString ns Undefined = Inr Undefined"
  by (simp add: optional_toString_def nullish_def)

section \<open>Properties of the normalizer\<close>

text \<open>
  The value of each column of a normalized record, and the keys of the input that a
  normalized record does not have.
\<close>

lemma normal_form_columns_1:
  "get_prop (normal_form r e) ''external_id'' = undefined_to_null e"
  "get_prop (normal_form r e) ''upload_id'' = undefined_to_null (get_prop r ''upload_id'')"
  "get_prop (normal_form r e) ''name'' = undefined_to_null (get_prop r ''name'')"
  "get_prop (normal_form r e) ''detail'' = undefined_to_null (get_prop r ''description'')"
  "get_prop (normal_form r e) ''distance'' = undefined_to_null (get_prop r ''distance'')"
  "get_prop (normal_form r e) ''moving_time'' = undefined_to_null (get_prop r ''moving_time'')"
  "get_prop (normal_form r e) ''elapsed_time'' = undefined_to_null (get_prop r ''elapsed_time'')"
  "get_prop (normal_form r e) ''high_elevation'' = undefined_to_null (get_prop r ''elev_high'')"
  "get_prop (normal_form r e) ''low_elevation'' = undefined_to_null (get_prop r ''elev_low'')"
  by (simp_all add: transformedData_literal_def)

lemma normal_form_columns_2:
  "get_prop (normal_form r e) ''total_elevation_gain'' = undefined_to_null (get_prop r ''total_elevation_gain'')"
  "get_prop (normal_form r e) ''start_date'' = undefined_to_null (get_prop r ''start_date'')"
  "get_prop (normal_form r e) ''start_date_local'' = undefined_to_null (get_prop r ''start_date_local'')"
  "get_prop (normal_form r e) ''time_zone'' = undefined_to_null (get_prop r ''timezone'')"
  "get_prop (normal_form r e) ''achievement_count'' = js_or (get_prop r ''achievement_count'') (Num (Finite 0))"
  "get_prop (normal_form r e) ''kudos_count'' = js_or (get_prop r ''kudos_count'') (Num (Finite 0))"
  "get_prop (normal_form r e) ''comment_count'' = js_or (get_prop r ''comment_count'') (Num (Finite 0))"
  "get_prop (normal_form r e) ''athlete_count'' = js_or (get_prop r ''athlete_count'') (Num (Finite 1))"
  "get_prop (normal_form r e) ''photo_count'' = js_or (get_prop r ''photo_count'') (Num (Finite 0))"
  by (simp_all add: transformedData_literal_def)

lemma normal_form_columns_3:
  "get_prop (normal_form r e) ''total_photo_count'' = js_or (get_prop r ''total_photo_count'') (Num (Finite 0))"
  "get_prop (normal_form r e) ''trainer'' = js_or (get_prop r ''trainer'') (Bool False)"
  "get_prop (normal_form r e) ''commute'' = js_or (get_prop r ''commute'') (Bool False)"
  "get_prop (normal_form r e) ''manual'' = js_or (get_prop r ''manual'') (Bool False)"
  "get_prop (normal_form r e) ''private'' = js_or (get_prop r ''private'') (Bool False)"
  "get_prop (normal_form r e) ''flagged'' = js_or (get_prop r ''flagged'') (Bool False)"
  "get_prop (normal_form r e) ''average_speed'' = undefined_to_null (get_prop r ''average_speed'')"
  "get_prop (normal_form r e) ''max_speed'' = undefined_to_null (get_prop r ''max_speed'')"
  "get_prop (normal_form r e) ''calories'' = undefined_to_null (get_prop r ''calories'')"
  by (simp_all add: transformedData_literal_def)

lemma normal_form_columns_4:
  "get_prop (normal_form r e) ''has_kudoed'' = js_or (get_prop r ''has_kudoed'') (Bool False)"
  "get_prop (normal_form r e) ''kilo_joules'' = undefined_to_null (get_prop r ''kilojoules'')"
  "get_prop (normal_form r e) ''average_power'' = undefined_to_null (get_prop r ''average_watts'')"
  "get_prop (normal_form r e) ''max_power'' = undefined_to_null (get_prop r ''max_watts'')"
  "get_prop (normal_form r e) ''device_watts'' = js_or (get_prop r ''device_watts'') (Bool False)"
  "get_prop (normal_form r e) ''has_heart_rate'' = js_or (get_prop r ''has_heartrate'') (Bool False)"
  "get_prop (normal_form r e) ''average_heart_rate'' = undefined_to_null (get_prop r ''average_heartrate'')"
  "get_prop (normal_form r e) ''max_heart_rate'' = undefined_to_null (get_prop r ''max_heartrate'')"
  by (simp_all add: transformedData_literal_def)

lemma normal_form_absent_1:
  "get_prop (normal_form r e) ''id'' = Undefined"
  "get_prop (normal_form r e) ''description'' = Undefined"
  "get_prop (normal_form r e) ''elev_high'' = Undefined"
  "get_prop (normal_form r e) ''elev_low'' = Undefined"
  "get_prop (normal_form r e) ''timezone'' = Undefined"
  "get_prop (normal_form r e) ''kilojoules'' = Undefined"
  by (simp_all add: transformedData_literal_def)

lemma normal_form_absent_2:
  "get_prop (normal_form r e) ''average_watts'' = Undefined"
  "get_prop (normal_form r e) ''max_watts'' = Undefined"
  "get_prop (normal_form r e) ''has_heartrate'' = Undefined"
  "get_prop (normal_form r e) ''average_heartrate'' = Undefined"
  "get_prop (normal_form r e) ''max_heartrate'' = Undefined"
  by (simp_all add: transformedData_literal_def)

lemmas normal_form_lookup =
  normal_form_columns_1 normal_form_columns_2 normal_form_columns_3 normal_form_columns_4
  normal_form_absent_1 normal_form_absent_2

lemma transformData_Obj:
  assumes "optional_toString ns (get_prop record ''id'') = Inr e"
    and "record \<noteq> Null" and "record \<noteq> Undefined"
  shows "transformData ns record = Inr (normal_form record e)"
  using assms by (simp add: transformData_def)

lemma transformData_InrD:
  assumes "transformData ns record = Inr t"
  obtains e where "optional_toString ns (get_prop record ''id'') = Inr e"
    and "t = normal_form record e"
  using assms by (auto simp: transformData_def split: if_splits sum.splits)

lemma normal_form_fields: "map fst (transformedData_literal record e) = activity_fields"
  by (simp add: transformedData_literal_def activity_fields_def)

lemma normal_form_defined:
  "v \<in> snd ` set (map (\<lambda>(key, v). (key, undefined_to_null v)) l) \<Longrightarrow> v \<noteq> Undefined"
  by auto

text \<open>
  Claim C1, as the code has it. For every input record whose \<^verbatim>\<open>id\<close> can be turned
  into a string (it is absent, \<^verbatim>\<open>null\<close>, a number, a string, a boolean, or an
  array or object that reaches no own \<^verbatim>\<open>toString\<close> key), \<^verbatim>\<open>transformData\<close> returns a
  record with exactly the fixed column set, in which no column is \<^verbatim>\<open>undefined\<close>:
  \<^verbatim>\<open>external_id\<close> is \<^verbatim>\<open>null\<close> for an absent or null id and the text of a numeric
  id; a renamed or copied column holds the value of its input key, \<^verbatim>\<open>null\<close> when that
  is missing; a flag holds the value of its key when that is truthy and \<^verbatim>\<open>false\<close>
  otherwise; a counter likewise with \<^verbatim>\<open>0\<close>, and \<^verbatim>\<open>athlete_count\<close> with \<^verbatim>\<open>1\<close>.
\<close>

theorem transformData_normalizes:
  assumes "\<not> unprintable (get_prop (Obj kvs) ''id'')"
  shows "\<exists>out. transformData ns (Obj kvs) = Inr (Obj out)
      \<and> map fst out = activity_fields
      \<and> (\<forall>v \<in> snd ` set out. v \<noteq> Undefined)
      \<and> (nullish (get_prop (Obj kvs) ''id'') \<longrightarrow> get_prop (Obj out) ''external_id'' = Null)
      \<and> (\<forall>n. get_prop (Obj kvs) ''id'' = Num n \<longrightarrow> get_prop (Obj out) ''external_id'' = Str (ns n))
      \<and> (\<forall>(column, key) \<in> set renamed_fields.
            get_prop (Obj out) column = undefined_to_null (get_prop (Obj kvs) key))
      \<and> (\<forall>column \<in> set copied_fields.
            get_prop (Obj out) column = undefined_to_null (get_prop (Obj kvs) column))
      \<and> (\<forall>(column, key) \<in> set boolean_fields.
            get_prop (Obj out) column = js_or (get_prop (Obj kvs) key) (Bool False))
      \<and> (\<forall>column \<in> set counter_fields.
            get_prop (Obj out) column = js_or (get_prop (Obj kvs) column) (Num (Finite 0)))
      \<and> get_prop (Obj out) ''athlete_count''
            = js_or (get_prop (Obj kvs) ''athlete_count'') (Num (Finite 1))"
proof -
  let ?r = "Obj kvs"
  from assms obtain e where e: "optional_toString ns (get_prop ?r ''id'') = Inr e"
    using optional_toString_fails [of ns "get_prop ?r ''id''"]
    by (cases "optional_toString ns (get_prop ?r ''id'')") auto
  note v = optional_toString_value [OF e]
  let ?out = "map (\<lambda>(key, v). (key, undefined_to_null v)) (transformedData_literal ?r e)"
  have t: "transformData ns ?r = Inr (Obj ?out)"
    using e by (rule transformData_Obj) simp_all
  have 1: "map fst ?out = activity_fields"
    using normal_form_fields [of ?r e] by (simp add: comp_def case_prod_unfold)
  have 2: "\<forall>v \<in> snd ` set ?out. v \<noteq> Undefined"
    using normal_form_defined by blast
  have 3: "nullish (get_prop ?r ''id'') \<longrightarrow> get_prop (Obj ?out) ''external_id'' = Null"
    using v(2) by (simp only: normal_form_lookup) simp
  have 4: "\<forall>n. get_prop ?r ''id'' = Num n \<longrightarrow> get_prop (Obj ?out) ''external_id'' = Str (ns n)"
    using v(3) by (simp only: normal_form_lookup) (simp add: undefined_to_null_def)
  have 5: "\<forall>(column, key) \<in> set renamed_fields.
            get_prop (Obj ?out) column = undefined_to_null (get_prop ?r key)"
    unfolding renamed_fields_def by (simp only: list.set ball_simps prod.case normal_form_lookup simp_thms)
  have 6: "\<forall>column \<in> set copied_fields.
            get_prop (Obj ?out) column = undefined_to_null (get_prop ?r column)"
    unfolding copied_fields_def by (simp only: list.set ball_simps normal_form_lookup simp_thms)
  have 7: "\<forall>(column, key) \<in> set boolean_fields.
            get_prop (Obj ?out) column = js_or (get_prop ?r key) (Bool False)"
    unfolding boolean_fields_def by (simp only: list.set ball_simps prod.case normal_form_lookup simp_thms)
  have 8: "\<forall>column \<in> set counter_fields.
            get_prop (Obj ?out) column = js_or (get_prop ?r column) (Num (Finite 0))"
    unfolding counter_fields_def by (simp only: list.set ball_simps normal_form_lookup simp_thms)
  have 9: "get_prop (Obj ?out) ''athlete_count'' = js_or (get_prop ?r ''athlete_count'') (Num (Finite 1))"
    by (simp only: normal_form_lookup)
  from t 1 2 3 4 5 6 7 8 9 show ?thesis by blast
qed

text \<open>The theorem at a record with a numeric id, a description, a null flag and a count.\<close>

theorem transformData_normalizes_witness:
  "\<not> unprintable (get_prop (Obj [(''id'', Num (Finite 42)), (''description'', Str ''easy''),
        (''trainer'', Null), (''kudos_count'', Num (Finite 3))]) ''id'')
   \<and> (\<exists>out. transformData decimal_number
          (Obj [(''id'', Num (Finite 42)), (''description'', Str ''easy''),
                (''trainer'', Null), (''kudos_count'', Num (Finite 3))]) = Inr (Obj out)
        \<and> map fst out = activity_fields
        \<and> get_prop (Obj out) ''external_id'' = Str ''42''
        \<and> get_prop (Obj out) ''detail'' = Str ''easy''
        \<and> get_prop (Obj out) ''name'' = Null
        \<and> get_prop (Obj out) ''trainer'' = Bool False
        \<and> get_prop (Obj out) ''kudos_count'' = Num (Finite 3)
        \<and> get_prop (Obj out) ''athlete_count'' = Num (Finite 1))"
proof -
  let ?kvs = "[(''id'', Num (Finite 42)), (''description'', Str ''easy''),
               (''trainer'', Null), (''kudos_count'', Num (Finite 3))]"
  have h: "\<not> unprintable (get_prop (Obj ?kvs) ''id'')" by simp
  from transformData_normalizes [OF h, of decimal_number]
  obtain out where t: "transformData decimal_number (Obj ?kvs) = Inr (Obj out)"
    and f: "map fst out = activity_fields"
    and i: "\<forall>n. get_prop (Obj ?kvs) ''id'' = Num n \<longrightarrow>
              get_prop (Obj out) ''external_id'' = Str (decimal_number n)"
    and r: "\<forall>(column, key) \<in> set renamed_fields.
              get_prop (Obj out) column = undefined_to_null (get_prop (Obj ?kvs) key)"
    and c: "\<forall>column \<in> set copied_fields.
              get_prop (Obj out) column = undefined_to_null (get_prop (Obj ?kvs) column)"
    and b: "\<forall>(column, key) \<in> set boolean_fields.
              get_prop (Obj out) column = js_or (get_prop (Obj ?kvs) key) (Bool False)"
    and n: "\<forall>column \<in> set counter_fields.
              get_prop (Obj out) column = js_or (get_prop (Obj ?kvs) column) (Num (Finite 0))"
    and a: "get_prop (Obj out) ''athlete_count'' =
              js_or (get_prop (Obj ?kvs) ''athlete_count'') (Num (Finite 1))"
    by blast
  have 1: "get_prop (Obj out) ''external_id'' = Str ''42''"
    using i by (simp add: decimal_number_def nat_to_string.simps)
  have 2: "get_prop (Obj out) ''detail'' = Str ''easy''"
    using r by (simp add: renamed_fields_def undefined_to_null_def)
  have 3: "get_prop (Obj out) ''name'' = Null"
    using c by (simp add: copied_fields_def undefined_to_null_def)
  have 4: "get_prop (Obj out) ''trainer'' = Bool False"
    using b by (simp add: boolean_fields_def js_or_def)
  have 5: "get_prop (Obj out) ''kudos_count'' = Num (Finite 3)"
    using n by (simp add: counter_fields_def js_or_def)
  have 6: "get_prop (Obj out) ''athlete_count'' = Num (Finite 1)"
    using a by (simp add: js_or_def)
  from h t f 1 2 3 4 5 6 show ?thesis by blast
qed

text \<open>
  The normalizer is not total: an \<^verbatim>\<open>id\<close> that is an object with an own \<^verbatim>\<open>toString\<close>
  key (\<^verbatim>\<open>{"id": {"toString": 1}}\<close>) makes \<^verbatim>\<open>record.id?.toString()\<close> call a number.
\<close>

theorem transformData_not_total:
  "transformData decimal_number (Obj [(''id'', Obj [(''toString'', Num (Finite 1))])])
     = Inl (TypeError ''record.id.toString is not a function'')"
  by (simp add: transformData_def optional_toString_def call_toString_def nullish_def has_own_def)

lemma normal_form_not_nullish:
  "normal_form r e \<noteq> Null" "normal_form r e \<noteq> Undefined"
  by simp_all

lemma reset_renamed_normal_form:
  "reset_renamed (normal_form r e) = normal_form (normal_form r e) Undefined"
  unfolding transformedData_literal_def [of "normal_form r e"]
  by (simp only: normal_form_lookup)
     (simp add: reset_renamed_def transformedData_literal_def renamed_columns_def
        renamed_fields_def undefined_to_null_def)

lemma transformData_normal_form:
  "transformData ns (normal_form r e) = Inr (reset_renamed (normal_form r e))"
  by (simp only: reset_renamed_normal_form)
     (rule transformData_Obj, simp_all only: normal_form_lookup optional_toString_Undefined
        normal_form_not_nullish not_False_eq_True)

lemma reset_renamed_idem: "reset_renamed (reset_renamed t) = reset_renamed t"
  by (cases t) (auto simp: reset_renamed_def)

text \<open>
  Claim C6, as the code has it. Normalizing a normalized record keeps the column set
  and every column that is read under its own name, and resets the columns that are
  filled from a key of another name: \<^verbatim>\<open>external_id\<close> and the nine renamed columns
  become \<^verbatim>\<open>null\<close>, \<^verbatim>\<open>has_heart_rate\<close> becomes \<^verbatim>\<open>false\<close>. A further normalization
  changes nothing more.
\<close>

theorem transformData_twice:
  assumes "transformData ns record = Inr t"
  shows "transformData ns t = Inr (reset_renamed t)
       \<and> transformData ns (reset_renamed t) = Inr (reset_renamed t)"
proof -
  from assms obtain e where t: "t = normal_form record e"
    by (rule transformData_InrD)
  have 1: "transformData ns t = Inr (reset_renamed t)"
    unfolding t by (rule transformData_normal_form)
  have "reset_renamed t = normal_form t Undefined"
    unfolding t by (rule reset_renamed_normal_form)
  then have "transformData ns (reset_renamed t) = Inr (reset_renamed (reset_renamed t))"
    by (simp only: transformData_normal_form)
  with 1 show ?thesis by (simp only: reset_renamed_idem simp_thms)
qed

text \<open>The theorem at the sample record: its \<^verbatim>\<open>external_id\<close> is lost by the second pass.\<close>

theorem transformData_twice_witness:
  "transformData decimal_number sample_record = Inr sample_normalized
   \<and> transformData decimal_number sample_normalized = Inr (reset_renamed sample_normalized)
   \<and> get_prop sample_normalized ''external_id'' = Str ''7''
   \<and> get_prop (reset_renamed sample_normalized) ''external_id'' = Null"
proof -
  have e: "optional_toString decimal_number (get_prop sample_record ''id'') = Inr (Str ''7'')"
    by (simp add: sample_record_def optional_toString_def call_toString_def nullish_def
        decimal_number_def nat_to_string.simps)
  have r: "transformData decimal_number sample_record = Inr (normal_form sample_record (Str ''7''))"
    using e by (rule transformData_Obj) (simp_all add: sample_record_def)
  then have n: "sample_normalized = normal_form sample_record (Str ''7'')"
    by (simp only: sample_normalized_def sum.case)
  have 1: "transformData decimal_number sample_record = Inr sample_normalized"
    by (simp only: r n)
  have 2: "get_prop sample_normalized ''external_id'' = Str ''7''"
    unfolding n by (simp only: normal_form_lookup) (simp add: undefined_to_null_def)
  have 3: "get_prop (reset_renamed sample_normalized) ''external_id'' = Null"
    unfolding n by (simp only: reset_renamed_normal_form normal_form_lookup) simp
  from transformData_twice [OF 1] 1 2 3 show ?thesis by simp
qed

text \<open>
  The normalizer is not idempotent: the \<^verbatim>\<open>detail\<close> of \<^verbatim>\<open>{"description": "easy"}\<close>
  is \<^verbatim>\<open>"easy"\<close> after one pass and \<^verbatim>\<open>null\<close> after two.
\<close>

theorem transformData_not_idempotent:
  "(case transformData decimal_number (Obj [(''description'', Str ''easy'')]) of
      Inl e \<Rightarrow> Inl e
    | Inr t \<Rightarrow> transformData decimal_number t)
   \<noteq> transformData decimal_number (Obj [(''description'', Str ''easy'')])"
proof -
  let ?r = "Obj [(''description'', Str ''easy'')]"
  have e: "optional_toString decimal_number (get_prop ?r ''id'') = Inr Undefined"
    by simp
  have r: "transformData decimal_number ?r = Inr (normal_form ?r Undefined)"
    using e by (rule transformData_Obj) simp_all
  have "get_prop (normal_form ?r Undefined) ''detail'' = Str ''easy''"
    by (simp only: normal_form_lookup) (simp add: undefined_to_null_def)
  moreover have "get_prop (reset_renamed (normal_form ?r Undefined)) ''detail'' = Null"
    by (simp only: reset_renamed_normal_form normal_form_lookup) simp
  ultimately have "reset_renamed (normal_form ?r Undefined) = normal_form ?r Undefined \<Longrightarrow> False"
    by (simp only:) simp
  then have "Inr (reset_renamed (normal_form ?r Undefined)) \<noteq> (Inr (normal_form ?r Undefined) :: js_error + jsval)"
    by (simp only: sum.inject) blast
  then show ?thesis
    by (simp only: r sum.case transformData_normal_form simp_thms)
qed

section \<open>Properties of the route handlers\<close>

lemma trim_Nil [simp]: "trim [] = []"
  by (simp add: trim_def)

lemma trim_nonempty: "trim s \<noteq> [] \<Longrightarrow> s \<noteq> []"
  by auto

text \<open>
  Claim C2. A \<^verbatim>\<open>POST /tokens\<close> request that passes the required-field check makes
  one upsert of the token record. When the store answers with an error whose code is
  \<^verbatim>\<open>23505\<close> (unique violation) the response is 409; any other error of the store, and
  a throw of the call, is a 500 with the error's message; when the store returns the
  upserted rows the response is 200 with the first of them.
\<close>

theorem post_tokens_store_outcomes:
  assumes "truthy (get_prop body ''user_id'')" and "truthy (get_prop body ''refresh_token'')"
    and "truthy (get_prop body ''access_token'')" and "truthy (get_prop body ''expires_at'')"
    and "date_of_seconds (get_prop body ''expires_at'') = Inr expiry"
    and "call = Upsert ''tokens''
           (Obj [(''user_id'', get_prop body ''user_id''),
                 (''refresh_token'', get_prop body ''refresh_token''),
                 (''access_token'', get_prop body ''access_token''),
                 (''expires_at'', expiry), (''updated_at'', Str now)])"
  shows "snd (post_tokens store now date_of_seconds body) = [call]
     \<and> (\<forall>data e. store call = Reply data (Some e) \<and> code e = ''23505'' \<longrightarrow>
            fst (post_tokens store now date_of_seconds body)
              = Response 409 (error_body ''Token conflict occurred''))
     \<and> (\<forall>data e. store call = Reply data (Some e) \<and> code e \<noteq> ''23505'' \<longrightarrow>
            fst (post_tokens store now date_of_seconds body)
              = Response 500 (error_body (message e)))
     \<and> (\<forall>x. store call = Rejected x \<longrightarrow>
            fst (post_tokens store now date_of_seconds body)
              = Response 500 (error_body (message_of x)))
     \<and> (\<forall>row rows. store call = Reply (Arr (row # rows)) None \<longrightarrow>
            fst (post_tokens store now date_of_seconds body) = Response 200 row)"
  using assms
  by (simp add: post_tokens_def Let_def catch500_def length_is_zero_def first_element_def)

text \<open>
  The theorem at the specification's example request, with a store that reports a
  unique violation, one that reports another error, and one that returns the row.
\<close>

theorem post_tokens_store_outcomes_witness:
  "post_tokens (\<lambda>call. Reply Null (Some (DbError ''23505'' ''duplicate key value'')))
       ''2024-01-01T00:00:00.000Z'' example_date_of_seconds token_body
     = (Response 409 (error_body ''Token conflict occurred''),
        [Upsert ''tokens''
           (Obj [(''user_id'', Str ''u1''), (''refresh_token'', Str ''r''),
                 (''access_token'', Str ''a''),
                 (''expires_at'', Str ''2023-11-14T22:13:20.000Z''),
                 (''updated_at'', Str ''2024-01-01T00:00:00.000Z'')])])
   \<and> fst (post_tokens (\<lambda>call. Reply Null (Some (DbError ''57014'' ''statement timeout'')))
       ''2024-01-01T00:00:00.000Z'' example_date_of_seconds token_body)
     = Response 500 (error_body ''statement timeout'')
   \<and> fst (post_tokens (\<lambda>call. Reply (Arr [token_row]) None)
       ''2024-01-01T00:00:00.000Z'' example_date_of_seconds token_body)
     = Response 200 token_row"
proof -
  let ?now = "''2024-01-01T00:00:00.000Z''"
  let ?call = "Upsert ''tokens''
           (Obj [(''user_id'', get_prop token_body ''user_id''),
                 (''refresh_token'', get_prop token_body ''refresh_token''),
                 (''access_token'', get_prop token_body ''access_token''),
                 (''expires_at'', Str ''2023-11-14T22:13:20.000Z''), (''updated_at'', Str ?now)])"
  have h: "truthy (get_prop token_body ''user_id'')" "truthy (get_prop token_body ''refresh_token'')"
    "truthy (get_prop token_body ''access_token'')" "truthy (get_prop token_body ''expires_at'')"
    "example_date_of_seconds (get_prop token_body ''expires_at'') = Inr (Str ''2023-11-14T22:13:20.000Z'')"
    by (simp_all add: token_body_def example_date_of_seconds_def)
  have c: "?call = ?call" by (rule refl)
  note t = post_tokens_store_outcomes
    [where body = token_body and date_of_seconds = example_date_of_seconds, OF h c]
  have v: "get_prop token_body ''user_id'' = Str ''u1''" "get_prop token_body ''refresh_token'' = Str ''r''"
    "get_prop token_body ''access_token'' = Str ''a''"
    by (simp_all add: token_body_def)
  show ?thesis
    using t [where store = "\<lambda>call. Reply Null (Some (DbError ''23505'' ''duplicate key value''))"]
      t [where store = "\<lambda>call. Reply Null (Some (DbError ''57014'' ''statement timeout''))"]
      t [where store = "\<lambda>call. Reply (Arr [token_row]) None"]
    by (simp add: v prod_eq_iff)
qed

text \<open>
  Claim C8. A \<^verbatim>\<open>POST /tokens\<close> body whose \<^verbatim>\<open>expires_at\<close> is the number \<^verbatim>\<open>0\<close> (or the
  empty string, or \<^verbatim>\<open>false\<close>) is answered 400 with the missing-fields error,
  whatever the other fields hold, and no store call is made.
\<close>

theorem post_tokens_falsy_expires_at:
  assumes "get_prop body ''expires_at'' = Num (Finite 0)
         \<or> get_prop body ''expires_at'' = Str []
         \<or> get_prop body ''expires_at'' = Bool False"
  shows "post_tokens store now date_of_seconds body
       = (Response 400
            (error_body ''user_id, refresh_token, access_token, and expires_at are required''),
          [])"
  using assms by (auto simp: post_tokens_def Let_def)

text \<open>
  The theorem at a body with the three other fields present and non-empty.
\<close>

theorem post_tokens_falsy_expires_at_witness:
  "post_tokens (\<lambda>call. Reply (Arr [token_row]) None) ''2024-01-01T00:00:00.000Z''
       example_date_of_seconds
       (Obj [(''user_id'', Str ''u1''), (''refresh_token'', Str ''r''), (''access_token'', Str ''a''),
             (''expires_at'', Num (Finite 0))])
     = (Response 400
          (error_body ''user_id, refresh_token, access_token, and expires_at are required''),
        [])"
  by (rule post_tokens_falsy_expires_at) simp

text \<open>
  Claim C9. A \<^verbatim>\<open>GET /tokens/:user_id\<close> request with a non-blank user id, for which
  the store finds a row whose \<^verbatim>\<open>access_token\<close> is \<^verbatim>\<open>null\<close> or empty, is answered
  404 with \<^verbatim>\<open>Access token not found for this user\<close>, after the one lookup.
\<close>

theorem get_access_token_empty_token:
  assumes "trim user_id \<noteq> []"
    and "store (SelectEq ''tokens'' ''access_token, expires_at'' ''user_id'' (Str user_id) MaybeSingle)
           = Reply (Obj row) None"
    and "get_prop (Obj row) ''access_token'' = Null \<or> get_prop (Obj row) ''access_token'' = Str []"
  shows "tokens_user_id_route store user_id
       = (Response 404 (error_body ''Access token not found for this user''),
          [SelectEq ''tokens'' ''access_token, expires_at'' ''user_id'' (Str user_id) MaybeSingle])"
  using assms trim_nonempty [of user_id]
  by (auto simp: tokens_user_id_route_def route_params_def get_access_token_def Let_def
      call_trim_def catch500_def)

text \<open>
  The theorem at user \<^verbatim>\<open>u1\<close> and a row with a null access token.
\<close>

theorem get_access_token_empty_token_witness:
  "tokens_user_id_route
       (\<lambda>call. Reply (Obj [(''access_token'', Null), (''expires_at'', Str ''2023-11-14T22:13:20+00:00'')]) None)
       ''u1''
     = (Response 404 (error_body ''Access token not found for this user''),
        [SelectEq ''tokens'' ''access_token, expires_at'' ''user_id'' (Str ''u1'') MaybeSingle])"
proof -
  let ?row = "[(''access_token'', Null), (''expires_at'', Str ''2023-11-14T22:13:20+00:00'')]"
  have 1: "trim ''u1'' \<noteq> []"
    by (simp add: trim_def is_space_def)
  have 2: "(\<lambda>call. Reply (Obj ?row) None)
             (SelectEq ''tokens'' ''access_token, expires_at'' ''user_id'' (Str ''u1'') MaybeSingle)
           = Reply (Obj ?row) None"
    by simp
  have 3: "get_prop (Obj ?row) ''access_token'' = Null \<or> get_prop (Obj ?row) ''access_token'' = Str []"
    by simp
  show ?thesis
    by (rule get_access_token_empty_token [OF 1 2 3])
qed

text \<open>
  Claim C10. A \<^verbatim>\<open>POST /maps\<close> request whose body is an object (the empty one
  included) is never answered 400: the handler makes the insert of the body stamped
  with \<^verbatim>\<open>created_at\<close>, and answers 201 with the first returned row when the store
  returns rows, and 500 with the error's message when the store reports an error or
  the call throws.
\<close>

theorem post_maps_object_body:
  assumes "call = InsertRows ''maps'' [Obj (AList.update ''created_at'' (Str now) kvs)]"
  shows "snd (post_maps store now (Obj kvs)) = [call]
     \<and> status (fst (post_maps store now (Obj kvs))) \<noteq> 400
     \<and> (\<forall>rows. store call = Reply (Arr rows) None \<longrightarrow>
            fst (post_maps store now (Obj kvs))
              = Response 201 (case rows of [] \<Rightarrow> Undefined | row # _ \<Rightarrow> row))
     \<and> (\<forall>data e. store call = Reply data (Some e) \<longrightarrow>
            fst (post_maps store now (Obj kvs)) = Response 500 (error_body (message e)))
     \<and> (\<forall>x. store call = Rejected x \<longrightarrow>
            fst (post_maps store now (Obj kvs)) = Response 500 (error_body (message_of x)))"
  using assms
  by (auto simp: post_maps_def Let_def catch500_def first_element_def spread_with_def
      own_props_def split: store_reply.splits option.splits jsval.splits sum.splits)

text \<open>
  The theorem at the empty object, with a store that returns a row and one that fails.
\<close>

theorem post_maps_object_body_witness:
  "post_maps (\<lambda>call. Reply (Arr [Obj [(''id'', Num (Finite 1)), (''created_at'', Str ''2024-01-01T00:00:00.000Z'')]]) None)
       ''2024-01-01T00:00:00.000Z'' (Obj [])
     = (Response 201 (Obj [(''id'', Num (Finite 1)), (''created_at'', Str ''2024-01-01T00:00:00.000Z'')]),
        [InsertRows ''maps'' [Obj [(''created_at'', Str ''2024-01-01T00:00:00.000Z'')]]])
   \<and> fst (post_maps (\<lambda>call. Reply Null (Some (DbError ''57014'' ''statement timeout'')))
       ''2024-01-01T00:00:00.000Z'' (Obj []))
     = Response 500 (error_body ''statement timeout'')"
proof -
  let ?now = "''2024-01-01T00:00:00.000Z''"
  have c: "InsertRows ''maps'' [Obj [(''created_at'', Str ?now)]]
         = InsertRows ''maps'' [Obj (AList.update ''created_at'' (Str ?now) [])]"
    by simp
  note t = post_maps_object_body [OF c]
  show ?thesis
    using t [where store = "\<lambda>call. Reply (Arr [Obj [(''id'', Num (Finite 1)), (''created_at'', Str ?now)]]) None"]
      t [where store = "\<lambda>call. Reply Null (Some (DbError ''57014'' ''statement timeout''))"]
    by (simp add: prod_eq_iff)
qed

text \<open>
  Claim C3 does not hold of the code. The lookup of \<^verbatim>\<open>GET /activities/:id\<close> ends
  in \<^verbatim>\<open>.single()\<close>, which reports a missing row as an error; the handler throws
  every error, so \<^verbatim>\<open>GET /activities/999\<close> with no such row is answered 500 with the
  store's message, and the 404 branch is reached only by a reply without error and
  without data.
\<close>

theorem get_activity_no_rows_is_500:
  "activities_id_route (\<lambda>call. no_rows_reply text) ''999''
     = (Response 500 (error_body text), [SelectEq ''activities'' ''*'' ''id'' (Str ''999'') Single])"
  by (simp add: activities_id_route_def route_params_def get_activity_by_id_def Let_def
      no_rows_reply_def catch500_def)

text \<open>
  Every error of the store is a 500 of this route, while the sessions handler turns
  the same no-rows reply into a 404.
\<close>

lemma get_activity_by_id_error:
  "store (SelectEq ''activities'' ''*'' ''id'' (get_prop params ''id'') Single) = Reply data (Some e)
   \<Longrightarrow> fst (get_activity_by_id store params) = Response 500 (error_body (message e))"
  by (simp add: get_activity_by_id_def Let_def catch500_def)

lemma get_session_no_rows_is_404:
  "truthy sid \<Longrightarrow>
   fst (get_session (\<lambda>call. no_rows_reply text) (Obj [(''session_id'', sid)]))
     = Response 404 (error_body ''Session not found'')"
  by (simp add: get_session_def Let_def no_rows_reply_def catch500_def)

text \<open>
  Claim C4 does not hold of the code. The handler of \<^verbatim>\<open>POST /athletes/:id/stats\<close>
  deletes nothing from the body: a patch that carries \<^verbatim>\<open>user_id\<close> is written as it
  is, with \<^verbatim>\<open>updated_at\<close> added, to the rows filtered by the path's id.
\<close>

theorem post_athlete_stats_keeps_user_id:
  "snd (post_athlete_stats store now (route_params ''id'' ''u1'')
          (Obj [(''user_id'', Str ''u2''), (''count'', Num (Finite 5))]))
     = [UpdateEq ''athlete_stats''
          (Obj [(''user_id'', Str ''u2''), (''count'', Num (Finite 5)), (''updated_at'', Str now)])
          ''user_id'' (Str ''u1'')]"
  by (simp add: post_athlete_stats_def route_params_def Let_def spread_with_def own_props_def)

text \<open>
  The handler of \<^verbatim>\<open>POST /athletes/:id\<close> does delete \<^verbatim>\<open>id\<close> from an object body
  and stamps \<^verbatim>\<open>updated_at\<close>.
\<close>

lemma post_athlete_strips_id:
  assumes "truthy (get_prop params ''id'')"
  shows "\<exists>payload. snd (post_athlete store now params (Obj kvs))
            = [UpdateEq ''athletes'' payload ''user_id'' (get_prop params ''id'')]
          \<and> get_prop payload ''id'' = Undefined
          \<and> get_prop payload ''updated_at'' = Str now"
  using assms
  by (simp add: post_athlete_def Let_def spread_with_def own_props_def delete_prop_def
      get_prop_def update_conv' delete_conv')

text \<open>
  Claim C5 does not hold of the code. The route binds the parameter \<^verbatim>\<open>sessionId\<close>
  and the handler reads \<^verbatim>\<open>session_id\<close>, which is always \<^verbatim>\<open>undefined\<close>: every
  \<^verbatim>\<open>GET /sessions/:sessionId\<close> request is answered 400 and no lookup is made.
\<close>

theorem sessions_route_always_400:
  "sessions_route store segment = (Response 400 (error_body ''session_id is required''), [])"
  by (simp add: sessions_route_def route_params_def get_session_def Let_def)

section \<open>Properties of the batch importer\<close>







end
